theory Spec2Isabelle
  imports Complex_Main
begin

section \<open>Numbers, rectangles and viewports\<close>

text \<open>
  The program is \<^verbatim>\<open>src/helpers/pdf/index.ts\<close>. Its numbers are JavaScript numbers; they
  are modelled as reals, so arithmetic is exact and the values NaN and Infinity do not
  occur. The only division is by the scale of a viewport; where a result depends on its
  value, the scale is assumed not to be 0. A value that may be \<^verbatim>\<open>undefined\<close> is an
  \<open>option\<close>.
\<close>

record Rect =
  rect_height :: real
  rect_width :: real
  rect_x :: real
  rect_y :: real

text \<open>The viewport object of the PDF library: the fields the program reads.\<close>

record Viewport =
  viewport_width :: real
  viewport_height :: real
  viewport_scale :: real

definition COVER_IMAGE_RECT :: Rect where
  "COVER_IMAGE_RECT = \<lparr>rect_height = 1201, rect_width = 1068, rect_x = 60, rect_y = 333\<rparr>"

definition EDITORIAL_RECT :: Rect where
  "EDITORIAL_RECT = \<lparr>rect_height = 800, rect_width = 1064, rect_x = 80, rect_y = 200\<rparr>"

text \<open>\<^verbatim>\<open>rectIntersects\<close>, lines 327-331. \<open>a > b\<close> is HOL's notation for \<open>b < a\<close>.\<close>

definition rectIntersects :: "Rect \<Rightarrow> Rect \<Rightarrow> bool" where
  "rectIntersects rect1 rect2 \<longleftrightarrow>
     rect_x rect1 < rect_x rect2 + rect_width rect2 \<and>
     rect_x rect1 + rect_width rect1 > rect_x rect2 \<and>
     rect_y rect1 < rect_y rect2 + rect_height rect2 \<and>
     rect_y rect1 + rect_height rect1 > rect_y rect2"

text \<open>\<^verbatim>\<open>pdfRectToPixelRect\<close>, lines 278-297: the closure's viewport is its first argument.\<close>

definition pdfRectToPixelRect :: "Viewport \<Rightarrow> Rect \<Rightarrow> Rect" where
  "pdfRectToPixelRect viewport pdfRect =
     (let pixelX = rect_x pdfRect * viewport_scale viewport;
          pixelY = (viewport_height viewport / viewport_scale viewport - rect_y pdfRect)
                     * viewport_scale viewport;
          pixelWidth = rect_width pdfRect * viewport_scale viewport;
          pixelHeight = rect_height pdfRect * viewport_scale viewport
      in \<lparr>rect_height = pixelHeight, rect_width = pixelWidth,
          rect_x = pixelX, rect_y = pixelY - pixelHeight\<rparr>)"

section \<open>Text content of a page\<close>

text \<open>
  An item of a page's text content is a text item (it has a \<^verbatim>\<open>str\<close> property) or a
  marked-content marker (it has none). \<^verbatim>\<open>transform\<close> is an array; the program reads its
  entries 4 and 5. \<^verbatim>\<open>width\<close> and \<^verbatim>\<open>height\<close> may be absent.
\<close>

record TextItem =
  str :: string
  transform :: "real list"
  item_width :: "real option"
  item_height :: "real option"

record TextMarkedContent =
  marked_type :: string
  marked_id :: string

datatype item = Text TextItem | Marked TextMarkedContent

datatype error = Error string

text \<open>
  A page object, as far as the program uses it: the outcome of \<^verbatim>\<open>getTextContent()\<close>, the
  viewport for a scale, and \<^verbatim>\<open>render\<close>, which paints a canvas of type \<open>'c\<close> or fails.
\<close>

record 'c Page =
  getTextContent :: "error + item list"
  getViewport :: "real \<Rightarrow> Viewport"
  render :: "'c \<Rightarrow> Viewport \<Rightarrow> error + 'c"

text \<open>\<^verbatim>\<open>v || 0\<close> on a number that may be undefined: undefined and 0 are falsy.\<close>

definition or_zero :: "real option \<Rightarrow> real" where
  "or_zero v = (case v of None \<Rightarrow> 0 | Some n \<Rightarrow> if n = 0 then 0 else n)"

text \<open>Reading an array entry: \<open>None\<close> is JavaScript's \<^verbatim>\<open>undefined\<close> beyond the end.\<close>

definition at_index :: "'a list \<Rightarrow> nat \<Rightarrow> 'a option" where
  "at_index xs i = (if i < length xs then Some (xs ! i) else None)"

text \<open>
  The callback given to \<^verbatim>\<open>filter\<close>, lines 300-318. When entry 4 or 5 of the transform is
  missing, the pixel coordinate computed from it is NaN and the first comparison on it
  in \<^verbatim>\<open>rectIntersects\<close> is false: the item is dropped.
\<close>

definition keepItem :: "Viewport \<Rightarrow> Rect \<Rightarrow> item \<Rightarrow> bool" where
  "keepItem viewport rect it =
     (case it of
        Text t \<Rightarrow>
          (let width = or_zero (item_width t);
               height = or_zero (item_height t)
           in if height = 0 then False
              else (case (at_index (transform t) 4, at_index (transform t) 5) of
                      (Some x, Some y) \<Rightarrow>
                        rectIntersects
                          (pdfRectToPixelRect viewport
                             \<lparr>rect_height = height, rect_width = width, rect_x = x, rect_y = y\<rparr>)
                          rect
                    | _ \<Rightarrow> False))
      | Marked m \<Rightarrow> False)"

text \<open>The callback given to \<^verbatim>\<open>map\<close>, lines 319-321.\<close>

definition item_str :: "item \<Rightarrow> string" where
  "item_str it = (case it of Text t \<Rightarrow> str t | Marked m \<Rightarrow> [])"

text \<open>\<^verbatim>\<open>Array.prototype.join(' ')\<close>.\<close>

fun join_space :: "string list \<Rightarrow> string" where
  "join_space [] = []"
| "join_space [s] = s"
| "join_space (s # t # ts) = s @ '' '' @ join_space (t # ts)"

text \<open>\<^verbatim>\<open>getTextInRect\<close>, lines 274-325. A rejected \<^verbatim>\<open>getTextContent\<close> is the error.\<close>

definition getTextInRect :: "'c Page \<Rightarrow> Rect \<Rightarrow> error + string" where
  "getTextInRect page rect =
     (case getTextContent page of
        Inl e \<Rightarrow> Inl e
      | Inr items \<Rightarrow>
          (let viewport = getViewport page 2
           in Inr (join_space (map item_str (filter (keepItem viewport rect) items)))))"

section \<open>Issue numbers\<close>

text \<open>\<^verbatim>\<open>String.prototype.split\<close> with a one-character separator: every occurrence of the
  separator ends a piece, so the result is never empty and pieces may be empty.\<close>

fun split_on :: "char \<Rightarrow> string \<Rightarrow> string list" where
  "split_on sep [] = [[]]"
| "split_on sep (c # cs) =
     (if c = sep then [] # split_on sep cs
      else (case split_on sep cs of
              [] \<Rightarrow> [[c]]
            | piece # pieces \<Rightarrow> (c # piece) # pieces))"

text \<open>\<^verbatim>\<open>issueTextToIssueNumber\<close>, lines 207-210. \<^verbatim>\<open>safeParseInt\<close> is imported from
  \<^verbatim>\<open>../number\<close>; it is the first argument here, applied to the piece at index 1 or to
  \<^verbatim>\<open>undefined\<close>.\<close>

definition issueTextToIssueNumber :: "(string option \<Rightarrow> 'n) \<Rightarrow> string \<Rightarrow> 'n" where
  "issueTextToIssueNumber safeParseInt issueText =
     (let issueNumber = at_index (split_on CHR '' '' issueText) 1
      in safeParseInt issueNumber)"

definition is_digit :: "char \<Rightarrow> bool" where
  "is_digit c \<longleftrightarrow> c \<in> set ''0123456789''"

definition digits_value :: "string \<Rightarrow> int" where
  "digits_value ds = foldl (\<lambda>n c. 10 * n + (of_char c - 48)) 0 ds"

text \<open>Modelled from the spec: \<^verbatim>\<open>safeParseInt\<close> of \<^verbatim>\<open>helpers/number\<close> is not among the
  sources. The spec, section 4.4 step 3 and section 8: the token is parsed as an integer;
  a non-numeric or missing token gives undefined/null, not an error. A token counts as
  numeric here when it is a non-empty run of decimal digits; \<open>None\<close> is undefined/null.\<close>

definition safeParseInt :: "string option \<Rightarrow> int option" where
  "safeParseInt token =
     (case token of
        None \<Rightarrow> None
      | Some ds \<Rightarrow> if ds \<noteq> [] \<and> list_all is_digit ds then Some (digits_value ds) else None)"

text \<open>The spec's words for the parsed token, to compare with the code: the second
  whitespace-delimited token. Tokens are the maximal runs of non-whitespace characters.\<close>

definition is_whitespace :: "char \<Rightarrow> bool" where
  "is_whitespace c \<longleftrightarrow> c \<in> set [CHR '' '', CHR 0x09, CHR 0x0A, CHR 0x0B, CHR 0x0C, CHR 0x0D]"

fun whitespace_tokens :: "string \<Rightarrow> string \<Rightarrow> string list" where
  "whitespace_tokens cur [] = (if cur = [] then [] else [cur])"
| "whitespace_tokens cur (c # cs) =
     (if is_whitespace c
      then (if cur = [] then whitespace_tokens [] cs else cur # whitespace_tokens [] cs)
      else whitespace_tokens (cur @ [c]) cs)"

definition second_whitespace_token :: "string \<Rightarrow> string option" where
  "second_whitespace_token issueText = at_index (whitespace_tokens [] issueText) 1"

section \<open>Rendering a page to an image\<close>

text \<open>Sequencing of steps that may throw: the first error ends the run.\<close>

definition then_do :: "error + 'a \<Rightarrow> ('a \<Rightarrow> error + 'b) \<Rightarrow> error + 'b" where
  "then_do m f = (case m of Inl e \<Rightarrow> Inl e | Inr v \<Rightarrow> f v)"

text \<open>
  The canvas library: a canvas and its 2d context are one value of type \<open>'c\<close>.
  \<open>drawImage dest source sx sy sw sh dx dy dw dh\<close> is the painted destination;
  \<open>toBuffer canvas mime quality\<close> is the encoded image. Each call may throw.
\<close>

record 'c CanvasLib =
  createCanvas :: "real \<Rightarrow> real \<Rightarrow> error + 'c"
  drawImage :: "'c \<Rightarrow> 'c \<Rightarrow> real \<Rightarrow> real \<Rightarrow> real \<Rightarrow> real \<Rightarrow> real \<Rightarrow> real \<Rightarrow> real \<Rightarrow> real \<Rightarrow> error + 'c"
  toBuffer :: "'c \<Rightarrow> string \<Rightarrow> real \<Rightarrow> error + string"

text \<open>\<^verbatim>\<open>cropCanvas\<close>, lines 219-238.\<close>

definition cropCanvas :: "'c CanvasLib \<Rightarrow> 'c \<Rightarrow> Rect \<Rightarrow> error + 'c" where
  "cropCanvas lib sourceCanvas cropRect =
     then_do (createCanvas lib (rect_width cropRect) (rect_height cropRect)) (\<lambda>croppedCanvas.
       drawImage lib croppedCanvas sourceCanvas
         (rect_x cropRect) (rect_y cropRect) (rect_width cropRect) (rect_height cropRect)
         0 0 (rect_width cropRect) (rect_height cropRect))"

text \<open>\<^verbatim>\<open>renderPageToImage\<close>, lines 246-272. The handler logs the error and throws it
  again; the log is not modelled. An object is truthy, so \<^verbatim>\<open>if (cropRect)\<close> asks
  whether the argument was given.\<close>

definition renderPageToImage :: "'c CanvasLib \<Rightarrow> 'c Page \<Rightarrow> Rect option \<Rightarrow> error + string" where
  "renderPageToImage lib page cropRect =
     (let viewport = getViewport page 2
      in then_do (createCanvas lib (viewport_width viewport) (viewport_height viewport)) (\<lambda>canvas.
         then_do (render page canvas viewport) (\<lambda>painted.
           (case cropRect of
              Some r \<Rightarrow>
                then_do (cropCanvas lib painted COVER_IMAGE_RECT) (\<lambda>cropped.
                  toBuffer lib cropped ''image/jpeg'' 60)
            | None \<Rightarrow> toBuffer lib painted ''image/jpeg'' 60))))"

section \<open>The contract of the text extractor, and sample inputs\<close>

text \<open>The document-space box of a text item, when entries 4 and 5 of its transform exist.\<close>

definition item_box :: "TextItem \<Rightarrow> Rect option" where
  "item_box t =
     (case (at_index (transform t) 4, at_index (transform t) 5) of
        (Some px, Some py) \<Rightarrow>
          Some \<lparr>rect_height = or_zero (item_height t), rect_width = or_zero (item_width t),
                rect_x = px, rect_y = py\<rparr>
      | _ \<Rightarrow> None)"

text \<open>The item's box, mapped to pixel space, intersects the given rectangle.\<close>

definition box_hits :: "Viewport \<Rightarrow> TextItem \<Rightarrow> Rect \<Rightarrow> bool" where
  "box_hits viewport t target =
     (case item_box t of
        None \<Rightarrow> False
      | Some b \<Rightarrow> rectIntersects (pdfRectToPixelRect viewport b) target)"

text \<open>
  The extractor in the spec's words (section 4.2), to compare with the code: the target
  is mapped once by the coordinate mapper, with the viewport of the fragments, and a
  fragment takes part when its height is not 0 and its pixel-space box intersects the
  mapped target.
\<close>

definition getTextInRect_spec :: "'c Page \<Rightarrow> Rect \<Rightarrow> error + string" where
  "getTextInRect_spec page rect =
     (case getTextContent page of
        Inl e \<Rightarrow> Inl e
      | Inr items \<Rightarrow>
          (let viewport = getViewport page 2;
               target = pdfRectToPixelRect viewport rect
           in Inr (join_space
                [str t. Text t \<leftarrow> items, or_zero (item_height t) \<noteq> 0,
                        box_hits viewport t target])))"

text \<open>
  The condition for a fragment of no width in the words of the claim on such fragments,
  with the target's edges taken in pixel space as section 4.2 of the spec has them (the
  target mapped by the coordinate mapper): the fragment's pixel-space x lies strictly
  between the mapped target's left and right edges, and the vertical pixel-space spans
  strictly overlap.
\<close>

definition zero_width_hit_spec :: "Viewport \<Rightarrow> TextItem \<Rightarrow> Rect \<Rightarrow> bool" where
  "zero_width_hit_spec viewport t rect =
     (case item_box t of
        None \<Rightarrow> False
      | Some b \<Rightarrow>
          (let fragment = pdfRectToPixelRect viewport b;
               target = pdfRectToPixelRect viewport rect
           in rect_x target < rect_x fragment \<and>
              rect_x fragment < rect_x target + rect_width target \<and>
              rect_y fragment < rect_y target + rect_height target \<and>
              rect_y target < rect_y fragment + rect_height fragment))"

text \<open>Sample inputs: an A4 page of 595 by 842 units, and text items placed on it.\<close>

definition a4_viewport :: "real \<Rightarrow> Viewport" where
  "a4_viewport scale =
     \<lparr>viewport_width = 595 * scale, viewport_height = 842 * scale, viewport_scale = scale\<rparr>"

definition sample_text :: "string \<Rightarrow> real \<Rightarrow> real \<Rightarrow> real option \<Rightarrow> real option \<Rightarrow> TextItem" where
  "sample_text s px py w h =
     \<lparr>str = s, transform = [1, 0, 0, 1, px, py], item_width = w, item_height = h\<rparr>"

definition sample_page :: "item list \<Rightarrow> unit Page" where
  "sample_page items =
     \<lparr>getTextContent = Inr items, getViewport = a4_viewport, render = (\<lambda>c v. Inr c)\<rparr>"

text \<open>The rectangles of \<^verbatim>\<open>processNewsletter\<close>, lines 100-119.\<close>

definition dateRect :: Rect where
  "dateRect = \<lparr>rect_height = 120, rect_width = 373, rect_x = 785, rect_y = 97\<rparr>"

definition descriptionRect :: Rect where
  "descriptionRect = \<lparr>rect_height = 100, rect_width = 1093, rect_x = 49, rect_y = 1540\<rparr>"

definition issueRect :: Rect where
  "issueRect = \<lparr>rect_height = 73, rect_width = 193, rect_x = 936, rect_y = 244\<rparr>"

section \<open>Processing a newsletter\<close>

text \<open>The decimal text of an integer, as a template literal prints it.\<close>

fun show_nat :: "nat \<Rightarrow> string" where
  "show_nat n =
     (if n < 10 then [''0123456789'' ! n]
      else show_nat (n div 10) @ [''0123456789'' ! (n mod 10)])"

declare show_nat.simps [simp del]

definition show_int :: "int \<Rightarrow> string" where
  "show_int i = (if i < 0 then ''-'' @ show_nat (nat (- i)) else show_nat (nat i))"

text \<open>A valid \<^verbatim>\<open>Date\<close>, as far as the program reads it.\<close>

record Date =
  getFullYear :: int
  getMonth :: int

record ProcessNewsletterOptions =
  extractPagesToImage :: "int list option"
  outputDataDir :: "string option"
  outputImageDir :: "string option"
  outputPdfDir :: "string option"
  removeAfterProcessing :: "bool option"

record 'c PDFDocument =
  getPage :: "int \<Rightarrow> error + 'c Page"

text \<open>
  What the program does to the world, in order: \<^verbatim>\<open>Bun.write(path, data)\<close>,
  \<^verbatim>\<open>Bun.write(path, Bun.file(source))\<close>, \<^verbatim>\<open>rm path\<close> and \<^verbatim>\<open>pdfDoc.cleanup()\<close>. The state
  of a run is the list of the effects done so far.
\<close>

datatype effect =
    WriteFile string string
  | CopyFile string string
  | RemoveFile string
  | Cleanup

text \<open>The object given to \<^verbatim>\<open>JSON.stringify\<close>, lines 162-169.\<close>

record 'n NewsletterData =
  data_date :: "Date option"
  data_description :: string
  data_editorial :: string
  data_issueNumber :: 'n
  data_path :: string
  data_slug :: string

text \<open>The value returned, lines 191-204.\<close>

record 'n NewsletterResult =
  metadata_issueDate :: "Date option"
  metadata_issueNumber :: 'n
  result_path :: string
  result_slug :: string
  text_date :: string
  text_description :: string
  text_editorial :: string
  text_issue :: string

text \<open>
  What the program imports. Reading a file and decoding it may fail; \<open>effectError\<close> says
  whether an effect fails after the effects done so far. \<open>'n\<close> is the type of what
  \<^verbatim>\<open>safeParseInt\<close> returns, and \<open>toString\<close> is its text in a template literal.
  \<^verbatim>\<open>parseMonthYear\<close>, \<^verbatim>\<open>safeParseInt\<close> and \<^verbatim>\<open>slugify\<close> are helpers of the repository that
  are not among the sources.
\<close>

record ('c, 'n) Externals =
  Bun_file_arrayBuffer :: "effect list \<Rightarrow> string \<Rightarrow> error + string"
  effectError :: "effect list \<Rightarrow> effect \<Rightarrow> error option"
  pdfjs_getDocument :: "string \<Rightarrow> error + 'c PDFDocument"
  canvasLib :: "'c CanvasLib"
  date_parseMonthYear :: "string \<Rightarrow> Date option"
  number_safeParseInt :: "string option \<Rightarrow> 'n"
  toString :: "'n \<Rightarrow> string"
  string_slugify :: "string \<Rightarrow> string"
  path_resolve :: "string \<Rightarrow> string \<Rightarrow> string"
  JSON_stringify :: "'n NewsletterData \<Rightarrow> string"

definition perform :: "('c, 'n) Externals \<Rightarrow> effect \<Rightarrow> effect list \<Rightarrow> error + effect list" where
  "perform ext e w = (case effectError ext w e of Some err \<Rightarrow> Inl err | None \<Rightarrow> Inr (w @ [e]))"

text \<open>The template literal of lines 129-131: \<^verbatim>\<open>date?.getFullYear()\<close> of no date is
  \<^verbatim>\<open>undefined\<close>, printed as such.\<close>

definition newsletterSlug :: "('c, 'n) Externals \<Rightarrow> Date option \<Rightarrow> 'n \<Rightarrow> string" where
  "newsletterSlug ext date issueNumber =
     string_slugify ext
       (''newsletter-''
        @ (case date of None \<Rightarrow> ''undefined'' | Some d \<Rightarrow> show_int (getFullYear d))
        @ ''-''
        @ (case date of None \<Rightarrow> ''undefined'' | Some d \<Rightarrow> show_int (getMonth d))
        @ ''-'' @ toString ext issueNumber)"

text \<open>The loop of lines 145-153.\<close>

fun writePages ::
  "('c, 'n) Externals \<Rightarrow> 'c PDFDocument \<Rightarrow> string \<Rightarrow> string \<Rightarrow> int list \<Rightarrow> effect list
     \<Rightarrow> error + effect list" where
  "writePages ext pdfDoc dir slug [] w = Inr w"
| "writePages ext pdfDoc dir slug (pageNumber # rest) w =
     (case getPage pdfDoc pageNumber of
        Inl e \<Rightarrow> Inl e
      | Inr page \<Rightarrow>
          (case renderPageToImage (canvasLib ext) page None of
             Inl e \<Rightarrow> Inl e
           | Inr imageBuffer \<Rightarrow>
               (case perform ext
                       (WriteFile
                          (path_resolve ext dir (slug @ ''-page-'' @ show_int pageNumber @ ''.jpg''))
                          imageBuffer) w of
                  Inl e \<Rightarrow> Inl e
                | Inr w' \<Rightarrow> writePages ext pdfDoc dir slug rest w')))"

text \<open>A string that may be undefined is truthy when it is given and not empty.\<close>

definition truthy :: "string option \<Rightarrow> bool" where
  "truthy s \<longleftrightarrow> s \<noteq> None \<and> s \<noteq> Some []"

text \<open>Lines 133-155. An array is truthy, also when it is empty.\<close>

definition writeImages ::
  "('c, 'n) Externals \<Rightarrow> ProcessNewsletterOptions \<Rightarrow> 'c PDFDocument \<Rightarrow> 'c Page \<Rightarrow> string
     \<Rightarrow> effect list \<Rightarrow> error + effect list" where
  "writeImages ext opts pdfDoc firstPage slug w =
     (case outputImageDir opts of
        None \<Rightarrow> Inr w
      | Some dir \<Rightarrow>
          if dir = [] then Inr w
          else
            then_do (renderPageToImage (canvasLib ext) firstPage (Some COVER_IMAGE_RECT))
              (\<lambda>imageBuffer.
            then_do (perform ext
                       (WriteFile (path_resolve ext dir (slug @ ''-cover.jpg'')) imageBuffer) w)
              (\<lambda>w1.
            (case extractPagesToImage opts of
               None \<Rightarrow> Inr w1
             | Some pages \<Rightarrow> writePages ext pdfDoc dir slug pages w1))))"

text \<open>Lines 157-174.\<close>

definition writeData ::
  "('c, 'n) Externals \<Rightarrow> ProcessNewsletterOptions \<Rightarrow> 'n NewsletterData
     \<Rightarrow> effect list \<Rightarrow> error + effect list" where
  "writeData ext opts d w =
     (case outputDataDir opts of
        None \<Rightarrow> Inr w
      | Some dir \<Rightarrow>
          if dir = [] then Inr w
          else perform ext
                 (WriteFile (path_resolve ext dir (data_slug d @ ''.json'')) (JSON_stringify ext d)) w)"

text \<open>Lines 176-182.\<close>

definition writePdf ::
  "('c, 'n) Externals \<Rightarrow> ProcessNewsletterOptions \<Rightarrow> string \<Rightarrow> string
     \<Rightarrow> effect list \<Rightarrow> error + effect list" where
  "writePdf ext opts filePath slug w =
     (case outputPdfDir opts of
        None \<Rightarrow> Inr w
      | Some dir \<Rightarrow>
          if dir = [] then Inr w
          else perform ext (CopyFile (path_resolve ext dir (slug @ ''.pdf'')) filePath) w)"

text \<open>Lines 184-186.\<close>

definition removeSource ::
  "('c, 'n) Externals \<Rightarrow> ProcessNewsletterOptions \<Rightarrow> string \<Rightarrow> effect list
     \<Rightarrow> error + effect list" where
  "removeSource ext opts filePath w =
     (if removeAfterProcessing opts = Some True then perform ext (RemoveFile filePath) w
      else Inr w)"

text \<open>\<^verbatim>\<open>processNewsletter\<close>, lines 84-205: the result and the effects done, or the first
  error thrown.\<close>

definition processNewsletter ::
  "('c, 'n) Externals \<Rightarrow> string \<Rightarrow> ProcessNewsletterOptions \<Rightarrow> effect list
     \<Rightarrow> error + ('n NewsletterResult \<times> effect list)" where
  "processNewsletter ext filePath opts w =
     then_do (Bun_file_arrayBuffer ext w filePath) (\<lambda>pdfBytes.
     then_do (pdfjs_getDocument ext pdfBytes) (\<lambda>pdfDoc.
     then_do (getPage pdfDoc 1) (\<lambda>firstPage.
     then_do (getPage pdfDoc 3) (\<lambda>editorialPage.
     then_do (getTextInRect firstPage dateRect) (\<lambda>dateText.
     then_do (getTextInRect firstPage descriptionRect) (\<lambda>description.
     then_do (getTextInRect firstPage issueRect) (\<lambda>issueText.
     then_do (getTextInRect editorialPage EDITORIAL_RECT) (\<lambda>editorialText.
       (let date = date_parseMonthYear ext dateText;
            issueNumber = issueTextToIssueNumber (number_safeParseInt ext) issueText;
            slug = newsletterSlug ext date issueNumber
        in
     then_do (writeImages ext opts pdfDoc firstPage slug w) (\<lambda>w1.
     then_do (writeData ext opts
                \<lparr>data_date = date, data_description = description,
                 data_editorial = editorialText, data_issueNumber = issueNumber,
                 data_path = ''/pdf/'' @ slug @ ''.pdf'', data_slug = slug\<rparr> w1) (\<lambda>w2.
     then_do (writePdf ext opts filePath slug w2) (\<lambda>w3.
     then_do (removeSource ext opts filePath w3) (\<lambda>w4.
     then_do (perform ext Cleanup w4) (\<lambda>w5.
       Inr (\<lparr>metadata_issueDate = date, metadata_issueNumber = issueNumber,
             result_path = filePath, result_slug = slug,
             text_date = dateText, text_description = description,
             text_editorial = editorialText, text_issue = issueText\<rparr>, w5)))))))))))))))"

text \<open>The paths written by a run, in order.\<close>

fun effect_paths :: "effect \<Rightarrow> string list" where
  "effect_paths (WriteFile p d) = [p]"
| "effect_paths (CopyFile p s) = [p]"
| "effect_paths (RemoveFile p) = []"
| "effect_paths Cleanup = []"

definition written_paths :: "effect list \<Rightarrow> string list" where
  "written_paths w = concat (map effect_paths w)"

text \<open>The paths a run writes for a slug: the cover and the pages, the data file, the
  copy of the document.\<close>

definition image_paths :: "('c, 'n) Externals \<Rightarrow> ProcessNewsletterOptions \<Rightarrow> string \<Rightarrow> string list" where
  "image_paths ext opts slug =
     (case outputImageDir opts of
        None \<Rightarrow> []
      | Some dir \<Rightarrow>
          if dir = [] then []
          else path_resolve ext dir (slug @ ''-cover.jpg'') #
               map (\<lambda>n. path_resolve ext dir (slug @ ''-page-'' @ show_int n @ ''.jpg''))
                 (case extractPagesToImage opts of None \<Rightarrow> [] | Some pages \<Rightarrow> pages))"

definition data_paths :: "('c, 'n) Externals \<Rightarrow> ProcessNewsletterOptions \<Rightarrow> string \<Rightarrow> string list" where
  "data_paths ext opts slug =
     (case outputDataDir opts of
        None \<Rightarrow> []
      | Some dir \<Rightarrow> if dir = [] then [] else [path_resolve ext dir (slug @ ''.json'')])"

definition pdf_paths :: "('c, 'n) Externals \<Rightarrow> ProcessNewsletterOptions \<Rightarrow> string \<Rightarrow> string list" where
  "pdf_paths ext opts slug =
     (case outputPdfDir opts of
        None \<Rightarrow> []
      | Some dir \<Rightarrow> if dir = [] then [] else [path_resolve ext dir (slug @ ''.pdf'')])"

text \<open>Sample inputs for a run: a canvas library that always succeeds, a document whose
  pages are all the same, helpers that find no date and leave the slug as it is.\<close>

definition sample_lib :: "unit CanvasLib" where
  "sample_lib =
     \<lparr>createCanvas = (\<lambda>w h. Inr ()),
      drawImage = (\<lambda>dest source sx sy sw sh dx dy dw dh. Inr ()),
      toBuffer = (\<lambda>c mime quality. Inr ''jpeg'')\<rparr>"

definition sample_newsletter_page :: "unit Page" where
  "sample_newsletter_page =
     sample_page
       [Text (sample_text ''Spring'' 400 760 (Some 100) (Some 20)),
        Text (sample_text ''Issue 42'' 480 700 (Some 40) (Some 10))]"

definition sample_document :: "unit PDFDocument" where
  "sample_document = \<lparr>getPage = (\<lambda>n. Inr sample_newsletter_page)\<rparr>"

definition sample_externals :: "(unit, int option) Externals" where
  "sample_externals =
     \<lparr>Bun_file_arrayBuffer = (\<lambda>w p. Inr ''%PDF''),
      effectError = (\<lambda>w e. None),
      pdfjs_getDocument = (\<lambda>bytes. Inr sample_document),
      canvasLib = sample_lib,
      date_parseMonthYear = (\<lambda>s. None),
      number_safeParseInt = safeParseInt,
      toString = (\<lambda>n. case n of None \<Rightarrow> ''undefined'' | Some i \<Rightarrow> show_int i),
      string_slugify = (\<lambda>s. s),
      path_resolve = (\<lambda>dir name. dir @ ''/'' @ name),
      JSON_stringify = (\<lambda>d. data_slug d)\<rparr>"

definition sample_options :: ProcessNewsletterOptions where
  "sample_options =
     \<lparr>extractPagesToImage = Some [5], outputDataDir = Some ''data'',
      outputImageDir = Some ''img'', outputPdfDir = Some ''pdf'',
      removeAfterProcessing = None\<rparr>"

section \<open>Properties of the rectangle test and the coordinate mapper\<close>

text \<open>
  C3. For every document-space rectangle and every viewport with pixel height \<open>H\<close> and
  scale \<open>s\<close>, the coordinate mapper gives the rectangle with x, width and height
  multiplied by \<open>s\<close> and \<open>y' = (H / s - y) * s - height * s\<close>.
\<close>

theorem pdfRectToPixelRect_formula:
  "pdfRectToPixelRect \<lparr>viewport_width = W, viewport_height = H, viewport_scale = s\<rparr>
       \<lparr>rect_height = h, rect_width = w, rect_x = px, rect_y = py\<rparr> =
     \<lparr>rect_height = h * s, rect_width = w * s, rect_x = px * s,
      rect_y = (H / s - py) * s - h * s\<rparr>"
  by (simp add: pdfRectToPixelRect_def Let_def)

text \<open>
  C5. \<^verbatim>\<open>rectIntersects(A, B)\<close> holds exactly when each rectangle's start is strictly below
  the other's end on both axes; two rectangles that touch along an edge do not intersect.
\<close>

theorem rectIntersects_open_overlap:
  "(rectIntersects A B \<longleftrightarrow>
      rect_x A < rect_x B + rect_width B \<and> rect_x B < rect_x A + rect_width A \<and>
      rect_y A < rect_y B + rect_height B \<and> rect_y B < rect_y A + rect_height A) \<and>
   (rect_x A + rect_width A = rect_x B \<or> rect_x B + rect_width B = rect_x A \<or>
    rect_y A + rect_height A = rect_y B \<or> rect_y B + rect_height B = rect_y A
      \<longrightarrow> \<not> rectIntersects A B)"
  by (auto simp add: rectIntersects_def)

theorem rectIntersects_open_overlap_witness:
  "(rect_x \<lparr>rect_height = 10, rect_width = 10, rect_x = 0, rect_y = 0\<rparr> +
      rect_width \<lparr>rect_height = 10, rect_width = 10, rect_x = 0, rect_y = 0\<rparr> =
      rect_x \<lparr>rect_height = 10, rect_width = 10, rect_x = 10, rect_y = 0\<rparr>) \<and>
   \<not> rectIntersects \<lparr>rect_height = 10, rect_width = 10, rect_x = 0, rect_y = 0\<rparr>
       \<lparr>rect_height = 10, rect_width = 10, rect_x = 10, rect_y = 0\<rparr>"
  using rectIntersects_open_overlap
    [of "\<lparr>rect_height = 10, rect_width = 10, rect_x = 0, rect_y = 0\<rparr>"
        "\<lparr>rect_height = 10, rect_width = 10, rect_x = 10, rect_y = 0\<rparr>"]
  by simp

text \<open>C7. The rectangle intersection test is symmetric.\<close>

theorem rectIntersects_symmetric: "rectIntersects A B = rectIntersects B A"
  by (auto simp add: rectIntersects_def)

section \<open>Properties of the text extractor\<close>

lemma keepItem_Text:
  "keepItem viewport rect (Text t) \<longleftrightarrow> or_zero (item_height t) \<noteq> 0 \<and> box_hits viewport t rect"
  by (simp add: keepItem_def box_hits_def item_box_def Let_def split: option.splits)

lemma keepItem_Marked: "\<not> keepItem viewport rect (Marked m)"
  by (simp add: keepItem_def)

lemma kept_strings:
  "map item_str (filter (keepItem viewport rect) items) =
     [str t. Text t \<leftarrow> items, or_zero (item_height t) \<noteq> 0, box_hits viewport t rect]"
proof (induction items)
  case Nil
  show ?case by simp
next
  case (Cons it items)
  then show ?case
    by (cases it) (simp_all add: keepItem_Text keepItem_Marked item_str_def)
qed

text \<open>
  C1, as the code has it. \<^verbatim>\<open>getTextInRect\<close> compares with the target rectangle as it is
  given, without mapping it, and returns, joined by single spaces and in source order,
  the strings of exactly the text items of non-zero height whose box, mapped to pixel
  space with the page's viewport at scale 2, intersects that rectangle.
\<close>

theorem getTextInRect_target_as_given:
  "getTextInRect page rect =
     (case getTextContent page of
        Inl e \<Rightarrow> Inl e
      | Inr items \<Rightarrow>
          Inr (join_space
            [str t. Text t \<leftarrow> items, or_zero (item_height t) \<noteq> 0,
                    box_hits (getViewport page 2) t rect]))"
  by (simp add: getTextInRect_def kept_strings split: sum.splits)

text \<open>
  C1, as the claim has it, fails: on an A4 page with one fragment at (400, 760), 100 wide
  and 20 high, and the date rectangle as target, the code returns the fragment's text,
  and the extractor that maps the target first returns the empty string.
\<close>

theorem getTextInRect_target_not_mapped:
  "getTextInRect
      (sample_page [Text (sample_text ''March 2024'' 400 760 (Some 100) (Some 20))]) dateRect
     = Inr ''March 2024'' \<and>
   getTextInRect_spec
      (sample_page [Text (sample_text ''March 2024'' 400 760 (Some 100) (Some 20))]) dateRect
     = Inr []"
  by (simp add: getTextInRect_def getTextInRect_spec_def sample_page_def sample_text_def
      dateRect_def a4_viewport_def keepItem_def box_hits_def item_box_def or_zero_def
      at_index_def pdfRectToPixelRect_def rectIntersects_def item_str_def)

text \<open>
  C4. A text fragment whose height is 0 (or absent, which the code reads as 0) is
  dropped whatever the target, its position, its width and its text: the extractor's
  result is the same with and without it.
\<close>

theorem zero_height_excluded:
  assumes "item_height t = Some 0 \<or> item_height t = None"
  shows "\<not> keepItem viewport rect (Text t) \<and>
         getTextInRect (page\<lparr>getTextContent := Inr (xs @ Text t # ys)\<rparr>) rect =
           getTextInRect (page\<lparr>getTextContent := Inr (xs @ ys)\<rparr>) rect"
proof -
  have z: "or_zero (item_height t) = 0"
    using assms by (auto simp add: or_zero_def)
  then have k: "\<not> keepItem viewport' rect (Text t)" for viewport'
    by (simp add: keepItem_Text)
  show ?thesis
    using k by (simp add: getTextInRect_def)
qed

theorem zero_height_excluded_witness:
  "(item_height (sample_text ''March 2024'' 400 760 (Some 100) (Some 0)) = Some 0 \<or>
    item_height (sample_text ''March 2024'' 400 760 (Some 100) (Some 0)) = None) \<and>
   \<not> keepItem (a4_viewport 2) dateRect
       (Text (sample_text ''March 2024'' 400 760 (Some 100) (Some 0))) \<and>
   getTextInRect (sample_page
       [Text (sample_text ''Issue'' 400 760 (Some 100) (Some 20)),
        Text (sample_text ''March 2024'' 400 760 (Some 100) (Some 0))]) dateRect = Inr ''Issue''"
  using zero_height_excluded
    [where t = "sample_text ''March 2024'' 400 760 (Some 100) (Some 0)"
       and viewport = "a4_viewport 2" and rect = dateRect and page = "sample_page []"
       and xs = "[Text (sample_text ''Issue'' 400 760 (Some 100) (Some 20))]" and ys = "[]"]
  by (simp add: getTextInRect_def sample_page_def sample_text_def
      dateRect_def a4_viewport_def keepItem_def or_zero_def
      at_index_def pdfRectToPixelRect_def rectIntersects_def item_str_def)

text \<open>
  C8. An item of the text content that is not a text item (it has no \<^verbatim>\<open>str\<close>) is
  dropped whatever the target, and adds nothing to the returned string.
\<close>

theorem marked_content_excluded:
  "\<not> keepItem viewport rect (Marked m) \<and>
   getTextInRect (page\<lparr>getTextContent := Inr (xs @ Marked m # ys)\<rparr>) rect =
     getTextInRect (page\<lparr>getTextContent := Inr (xs @ ys)\<rparr>) rect"
  by (simp add: getTextInRect_def keepItem_Marked)

text \<open>
  C9, as the code has it. A fragment of width 0 (or of absent width) and positive height is
  kept exactly when its pixel-space x lies strictly between the left and right edges of
  the target rectangle as it is given, and its vertical pixel-space span strictly
  overlaps the target's as given; the target is never mapped. On every page that holds
  the fragment the extractor then returns its text among the kept ones, and such targets
  exist. The viewport's scale is not 0.
\<close>

theorem zero_width_not_disqualified:
  assumes w: "item_width t = Some 0 \<or> item_width t = None"
    and h: "item_height t = Some h" "0 < h"
    and o: "at_index (transform t) 4 = Some px" "at_index (transform t) 5 = Some py"
    and s: "viewport_scale viewport \<noteq> 0"
    and vp: "getViewport page 2 = viewport"
  shows "(keepItem viewport rect (Text t) \<longleftrightarrow>
            rect_x rect < px * viewport_scale viewport \<and>
            px * viewport_scale viewport < rect_x rect + rect_width rect \<and>
            (viewport_height viewport / viewport_scale viewport - py) * viewport_scale viewport
               - h * viewport_scale viewport < rect_y rect + rect_height rect \<and>
            rect_y rect <
              (viewport_height viewport / viewport_scale viewport - py) * viewport_scale viewport) \<and>
         getTextInRect (page\<lparr>getTextContent := Inr (xs @ Text t # ys)\<rparr>) rect =
           Inr (join_space
                  (map item_str (filter (keepItem viewport rect) xs) @
                   (if keepItem viewport rect (Text t) then [str t] else []) @
                   map item_str (filter (keepItem viewport rect) ys))) \<and>
         (\<exists>target. keepItem viewport target (Text t) \<and>
            getTextInRect (page\<lparr>getTextContent := Inr (xs @ Text t # ys)\<rparr>) target =
              Inr (join_space
                     (map item_str (filter (keepItem viewport target) xs) @
                      str t # map item_str (filter (keepItem viewport target) ys))))"
proof -
  let ?s = "viewport_scale viewport"
  let ?Y = "(viewport_height viewport / ?s - py) * ?s"
  have wz: "or_zero (item_width t) = 0"
    using w by (auto simp add: or_zero_def)
  have hz: "or_zero (item_height t) = h"
    using h by (simp add: or_zero_def)
  have k: "keepItem viewport r (Text t) \<longleftrightarrow>
            rect_x r < px * ?s \<and> px * ?s < rect_x r + rect_width r \<and>
            ?Y - h * ?s < rect_y r + rect_height r \<and> rect_y r < ?Y" for r
    using h(2) o
    by (auto simp add: keepItem_def wz hz Let_def pdfRectToPixelRect_def rectIntersects_def)
  have run: "getTextInRect (page\<lparr>getTextContent := Inr (xs @ Text t # ys)\<rparr>) r =
           Inr (join_space
                  (map item_str (filter (keepItem viewport r) xs) @
                   (if keepItem viewport r (Text t) then [str t] else []) @
                   map item_str (filter (keepItem viewport r) ys)))" for r
    by (simp add: getTextInRect_def vp item_str_def)
  let ?target = "\<lparr>rect_height = \<bar>h * ?s\<bar> + 2, rect_width = 2,
                  rect_x = px * ?s - 1, rect_y = ?Y - 1\<rparr>"
  have kt: "keepItem viewport ?target (Text t)"
    by (simp add: k)
  have "getTextInRect (page\<lparr>getTextContent := Inr (xs @ Text t # ys)\<rparr>) ?target =
          Inr (join_space
                 (map item_str (filter (keepItem viewport ?target) xs) @
                  str t # map item_str (filter (keepItem viewport ?target) ys)))"
    using kt by (simp only: run [of ?target] if_True append_Cons append_Nil)
  with kt have "\<exists>target. keepItem viewport target (Text t) \<and>
            getTextInRect (page\<lparr>getTextContent := Inr (xs @ Text t # ys)\<rparr>) target =
              Inr (join_space
                     (map item_str (filter (keepItem viewport target) xs) @
                      str t # map item_str (filter (keepItem viewport target) ys)))"
    by blast
  with k [of rect] run [of rect] show ?thesis by blast
qed

theorem zero_width_not_disqualified_witness:
  "(item_width (sample_text ''March'' 400 760 None (Some 20)) = Some 0 \<or>
    item_width (sample_text ''March'' 400 760 None (Some 20)) = None) \<and>
   item_height (sample_text ''March'' 400 760 None (Some 20)) = Some 20 \<and> (0::real) < 20 \<and>
   at_index (transform (sample_text ''March'' 400 760 None (Some 20))) 4 = Some 400 \<and>
   at_index (transform (sample_text ''March'' 400 760 None (Some 20))) 5 = Some 760 \<and>
   viewport_scale (a4_viewport 2) \<noteq> 0 \<and>
   getViewport (sample_page []) 2 = a4_viewport 2 \<and>
   keepItem (a4_viewport 2) dateRect (Text (sample_text ''March'' 400 760 None (Some 20))) \<and>
   getTextInRect
     ((sample_page [])\<lparr>getTextContent :=
        Inr ([Text (sample_text ''Issue 42'' 480 700 (Some 40) (Some 10))] @
             Text (sample_text ''March'' 400 760 None (Some 20)) # [])\<rparr>) dateRect = Inr ''March''"
proof -
  let ?t = "sample_text ''March'' 400 760 None (Some 20)"
  let ?xs = "[Text (sample_text ''Issue 42'' 480 700 (Some 40) (Some 10))]"
  have w: "item_width ?t = Some 0 \<or> item_width ?t = None"
    and h: "item_height ?t = Some 20" "(0::real) < 20"
    and o: "at_index (transform ?t) 4 = Some 400" "at_index (transform ?t) 5 = Some 760"
    by (simp_all add: sample_text_def at_index_def)
  have s: "viewport_scale (a4_viewport 2) \<noteq> 0"
    by (simp add: a4_viewport_def)
  have vp: "getViewport (sample_page []) 2 = a4_viewport 2"
    by (simp add: sample_page_def)
  have other: "\<not> keepItem (a4_viewport 2) dateRect
                   (Text (sample_text ''Issue 42'' 480 700 (Some 40) (Some 10)))"
    by (simp add: keepItem_def sample_text_def at_index_def or_zero_def a4_viewport_def
        dateRect_def pdfRectToPixelRect_def rectIntersects_def)
  note c = zero_width_not_disqualified [OF w h o s vp, of dateRect ?xs "[]"]
  from c have k: "keepItem (a4_viewport 2) dateRect (Text ?t)"
    by (simp add: a4_viewport_def dateRect_def)
  from c have "getTextInRect ((sample_page [])\<lparr>getTextContent := Inr (?xs @ Text ?t # [])\<rparr>)
                 dateRect = Inr (str ?t)"
    by (simp add: k other)
  then have "getTextInRect ((sample_page [])\<lparr>getTextContent := Inr (?xs @ Text ?t # [])\<rparr>)
                 dateRect = Inr ''March''"
    by (simp add: sample_text_def)
  with w h o s vp k show ?thesis by blast
qed

text \<open>
  C9, as the claim has it, fails. With the target's edges taken in pixel space, that is the
  target mapped by the coordinate mapper, the fragment at (400, 760) of no width and
  height 20 meets the condition for the target at (390, 750), 20 wide and 40 high: the
  mapped target spans 780 to 820 and 104 to 184, the fragment sits at 800 and spans 124
  to 164. The code compares with the target as given, and drops the fragment.
\<close>

theorem zero_width_target_not_mapped:
  "zero_width_hit_spec (a4_viewport 2) (sample_text ''March'' 400 760 None (Some 20))
     \<lparr>rect_height = 40, rect_width = 20, rect_x = 390, rect_y = 750\<rparr> \<and>
   \<not> keepItem (a4_viewport 2) \<lparr>rect_height = 40, rect_width = 20, rect_x = 390, rect_y = 750\<rparr>
       (Text (sample_text ''March'' 400 760 None (Some 20))) \<and>
   getTextInRect (sample_page [Text (sample_text ''March'' 400 760 None (Some 20))])
     \<lparr>rect_height = 40, rect_width = 20, rect_x = 390, rect_y = 750\<rparr> = Inr []"
  by (simp add: zero_width_hit_spec_def item_box_def getTextInRect_def sample_page_def
      sample_text_def a4_viewport_def keepItem_def or_zero_def at_index_def
      pdfRectToPixelRect_def rectIntersects_def)

section \<open>Properties of the issue number and of the rasterizer\<close>

text \<open>
  C6, as the code has it. \<^verbatim>\<open>issueTextToIssueNumber\<close> splits the text at every single
  space and parses the piece at index 1: a missing piece, an empty piece or a piece that
  is not a number gives no issue number and no error. \<^verbatim>\<open>"Issue 42"\<close> gives 42 and
  \<^verbatim>\<open>"Issue"\<close> gives none.
\<close>

theorem issueTextToIssueNumber_piece_at_1:
  "issueTextToIssueNumber parse issueText = parse (at_index (split_on CHR '' '' issueText) 1) \<and>
   issueTextToIssueNumber safeParseInt issueText =
     (case at_index (split_on CHR '' '' issueText) 1 of
        None \<Rightarrow> None
      | Some piece \<Rightarrow>
          if piece \<noteq> [] \<and> list_all is_digit piece then Some (digits_value piece) else None) \<and>
   issueTextToIssueNumber safeParseInt ''Issue 42'' = Some 42 \<and>
   issueTextToIssueNumber safeParseInt ''Issue'' = None"
  by (simp add: issueTextToIssueNumber_def safeParseInt_def at_index_def is_digit_def
      digits_value_def)

text \<open>
  C6, as the claim has it, fails: in \<^verbatim>\<open>"Issue  42"\<close>, with two spaces, the second
  whitespace-delimited token is \<^verbatim>\<open>42\<close>, and the code parses the empty piece between the
  two spaces and gives no issue number.
\<close>

theorem issueTextToIssueNumber_not_second_token:
  "issueTextToIssueNumber safeParseInt ''Issue  42'' = None \<and>
   safeParseInt (second_whitespace_token ''Issue  42'') = Some 42"
  by (simp add: issueTextToIssueNumber_def safeParseInt_def at_index_def is_digit_def
      digits_value_def second_whitespace_token_def is_whitespace_def)

text \<open>
  C2. When \<^verbatim>\<open>renderPageToImage\<close> is given a crop rectangle, the image it returns is the
  rendered canvas cropped with \<^verbatim>\<open>COVER_IMAGE_RECT\<close>, that is x 60, y 333, width 1068,
  height 1201, whatever the rectangle given: the result equals that of cropping with the
  constant.
\<close>

theorem crop_uses_cover_rect:
  "renderPageToImage lib page (Some cropRect) =
     renderPageToImage lib page (Some COVER_IMAGE_RECT) \<and>
   renderPageToImage lib page (Some cropRect) =
     then_do (createCanvas lib (viewport_width (getViewport page 2))
                (viewport_height (getViewport page 2))) (\<lambda>canvas.
     then_do (render page canvas (getViewport page 2)) (\<lambda>painted.
     then_do (createCanvas lib 1068 1201) (\<lambda>croppedCanvas.
     then_do (drawImage lib croppedCanvas painted 60 333 1068 1201 0 0 1068 1201) (\<lambda>cropped.
       toBuffer lib cropped ''image/jpeg'' 60))))"
  by (simp add: renderPageToImage_def cropCanvas_def COVER_IMAGE_RECT_def Let_def then_do_def
      split: sum.splits)

section \<open>Properties of the newsletter processor\<close>

lemma then_do_Inr: "then_do (Inr v) f = f v"
  by (simp add: then_do_def)

lemma then_do_Inl: "then_do (Inl e) f = Inl e"
  by (simp add: then_do_def)

lemma perform_ok:
  "\<forall>w e. effectError ext w e = None \<Longrightarrow> perform ext e w = Inr (w @ [e])"
  by (simp add: perform_def)

lemma written_paths_append: "written_paths (w @ v) = written_paths w @ written_paths v"
  by (simp add: written_paths_def)

lemma writePages_ok:
  assumes ok: "\<forall>w e. effectError ext w e = None"
    and pages: "\<forall>n \<in> set pages. \<exists>page image. getPage pdfDoc n = Inr page \<and>
                  renderPageToImage (canvasLib ext) page None = Inr image"
  shows "\<exists>w'. writePages ext pdfDoc dir slug pages w = Inr w' \<and>
           written_paths w' = written_paths w @
             map (\<lambda>n. path_resolve ext dir (slug @ ''-page-'' @ show_int n @ ''.jpg'')) pages"
  using pages
proof (induction pages arbitrary: w)
  case Nil
  show ?case by simp
next
  case (Cons n pages)
  from Cons.prems obtain page image where
    p: "getPage pdfDoc n = Inr page" "renderPageToImage (canvasLib ext) page None = Inr image"
    by auto
  let ?e = "WriteFile (path_resolve ext dir (slug @ ''-page-'' @ show_int n @ ''.jpg'')) image"
  from Cons.prems have "\<forall>n \<in> set pages. \<exists>page image. getPage pdfDoc n = Inr page \<and>
                  renderPageToImage (canvasLib ext) page None = Inr image"
    by simp
  from Cons.IH [OF this, of "w @ [?e]"] obtain w' where
    w': "writePages ext pdfDoc dir slug pages (w @ [?e]) = Inr w'"
        "written_paths w' = written_paths (w @ [?e]) @
           map (\<lambda>n. path_resolve ext dir (slug @ ''-page-'' @ show_int n @ ''.jpg'')) pages"
    by blast
  have "writePages ext pdfDoc dir slug (n # pages) w = Inr w'"
    using w'(1) by (simp add: p perform_ok [OF ok])
  moreover have "written_paths w' = written_paths w @
      map (\<lambda>n. path_resolve ext dir (slug @ ''-page-'' @ show_int n @ ''.jpg'')) (n # pages)"
    by (simp add: w'(2) written_paths_append) (simp add: written_paths_def)
  ultimately show ?case by blast
qed

lemma writeImages_ok:
  assumes ok: "\<forall>w e. effectError ext w e = None"
    and cover: "truthy (outputImageDir opts) \<longrightarrow>
       (\<exists>image. renderPageToImage (canvasLib ext) firstPage (Some COVER_IMAGE_RECT) = Inr image)"
    and pages: "truthy (outputImageDir opts) \<longrightarrow>
       (\<forall>n \<in> set (case extractPagesToImage opts of None \<Rightarrow> [] | Some pages \<Rightarrow> pages).
          \<exists>page image. getPage pdfDoc n = Inr page \<and>
             renderPageToImage (canvasLib ext) page None = Inr image)"
  shows "\<exists>w'. writeImages ext opts pdfDoc firstPage slug w = Inr w' \<and>
           written_paths w' = written_paths w @ image_paths ext opts slug"
proof (cases "truthy (outputImageDir opts)")
  case False
  then show ?thesis
    by (auto simp add: writeImages_def image_paths_def truthy_def split: option.splits)
next
  case True
  then obtain dir where dir: "outputImageDir opts = Some dir" "dir \<noteq> []"
    by (auto simp add: truthy_def)
  from True cover obtain image where
    image: "renderPageToImage (canvasLib ext) firstPage (Some COVER_IMAGE_RECT) = Inr image"
    by blast
  let ?e = "WriteFile (path_resolve ext dir (slug @ ''-cover.jpg'')) image"
  show ?thesis
  proof (cases "extractPagesToImage opts")
    case None
    then show ?thesis
      by (simp add: writeImages_def image_paths_def dir image then_do_Inr perform_ok [OF ok]
          written_paths_append) (simp add: written_paths_def)
  next
    case (Some ns)
    with True pages have "\<forall>n \<in> set ns. \<exists>page image. getPage pdfDoc n = Inr page \<and>
             renderPageToImage (canvasLib ext) page None = Inr image"
      by simp
    from writePages_ok [OF ok this, of dir slug "w @ [?e]"] obtain w' where
      w': "writePages ext pdfDoc dir slug ns (w @ [?e]) = Inr w'"
          "written_paths w' = written_paths (w @ [?e]) @
             map (\<lambda>n. path_resolve ext dir (slug @ ''-page-'' @ show_int n @ ''.jpg'')) ns"
      by blast
    have "writeImages ext opts pdfDoc firstPage slug w = Inr w'"
      using w'(1) by (simp add: writeImages_def dir image then_do_Inr perform_ok [OF ok] Some)
    moreover have "written_paths w' = written_paths w @ image_paths ext opts slug"
      by (simp add: w'(2) image_paths_def dir Some written_paths_append)
         (simp add: written_paths_def)
    ultimately show ?thesis by blast
  qed
qed

lemma writeData_ok:
  assumes ok: "\<forall>w e. effectError ext w e = None"
  shows "\<exists>w'. writeData ext opts d w = Inr w' \<and>
           written_paths w' = written_paths w @ data_paths ext opts (data_slug d)"
  by (auto simp add: writeData_def data_paths_def perform_ok [OF ok] written_paths_def
      split: option.splits)

lemma writePdf_ok:
  assumes ok: "\<forall>w e. effectError ext w e = None"
  shows "\<exists>w'. writePdf ext opts filePath slug w = Inr w' \<and>
           written_paths w' = written_paths w @ pdf_paths ext opts slug"
  by (auto simp add: writePdf_def pdf_paths_def perform_ok [OF ok] written_paths_def
      split: option.splits)

lemma removeSource_ok:
  assumes ok: "\<forall>w e. effectError ext w e = None"
  shows "\<exists>w'. removeSource ext opts filePath w = Inr w' \<and> written_paths w' = written_paths w"
  by (auto simp add: removeSource_def perform_ok [OF ok] written_paths_def)

lemma newsletterSlug_no_date:
  "newsletterSlug ext None n =
     string_slugify ext (''newsletter-undefined-undefined-'' @ toString ext n)"
  by (simp add: newsletterSlug_def)

text \<open>
  C10. When \<^verbatim>\<open>parseMonthYear\<close> finds no date and every call of the run succeeds,
  \<^verbatim>\<open>processNewsletter\<close> returns, its slug is
  \<^verbatim>\<open>slugify('newsletter-undefined-undefined-<issueNumber>')\<close>, and the cover, the pages, the
  data file and the copy of the document are all named from that slug.
\<close>

theorem degraded_slug:
  assumes bytes: "Bun_file_arrayBuffer ext w filePath = Inr pdfBytes"
    and doc: "pdfjs_getDocument ext pdfBytes = Inr pdfDoc"
    and page1: "getPage pdfDoc 1 = Inr firstPage"
    and page3: "getPage pdfDoc 3 = Inr editorialPage"
    and dateText: "getTextInRect firstPage dateRect = Inr dateText"
    and issueText: "getTextInRect firstPage issueRect = Inr issueText"
    and editorial: "getTextInRect editorialPage EDITORIAL_RECT = Inr editorialText"
    and no_date: "date_parseMonthYear ext dateText = None"
    and ok: "\<forall>w e. effectError ext w e = None"
    and cover: "truthy (outputImageDir opts) \<longrightarrow>
       (\<exists>image. renderPageToImage (canvasLib ext) firstPage (Some COVER_IMAGE_RECT) = Inr image)"
    and pages: "truthy (outputImageDir opts) \<longrightarrow>
       (\<forall>n \<in> set (case extractPagesToImage opts of None \<Rightarrow> [] | Some pages \<Rightarrow> pages).
          \<exists>page image. getPage pdfDoc n = Inr page \<and>
             renderPageToImage (canvasLib ext) page None = Inr image)"
  shows "\<exists>r w'. processNewsletter ext filePath opts w = Inr (r, w') \<and>
           metadata_issueDate r = None \<and>
           result_slug r =
             string_slugify ext (''newsletter-undefined-undefined-'' @
               toString ext (issueTextToIssueNumber (number_safeParseInt ext) issueText)) \<and>
           written_paths w' = written_paths w @
             image_paths ext opts (result_slug r) @ data_paths ext opts (result_slug r) @
             pdf_paths ext opts (result_slug r)"
proof -
  let ?n = "issueTextToIssueNumber (number_safeParseInt ext) issueText"
  let ?slug = "string_slugify ext (''newsletter-undefined-undefined-'' @ toString ext ?n)"
  obtain description where description: "getTextInRect firstPage descriptionRect = Inr description"
    using dateText by (auto simp add: getTextInRect_def split: sum.splits)
  let ?d = "\<lparr>data_date = None, data_description = description,
             data_editorial = editorialText, data_issueNumber = ?n,
             data_path = ''/pdf/'' @ ?slug @ ''.pdf'', data_slug = ?slug\<rparr>"
  obtain w1 where w1: "writeImages ext opts pdfDoc firstPage ?slug w = Inr w1"
      "written_paths w1 = written_paths w @ image_paths ext opts ?slug"
    using writeImages_ok [OF ok cover pages] by blast
  obtain w2 where w2: "writeData ext opts ?d w1 = Inr w2"
      "written_paths w2 = written_paths w1 @ data_paths ext opts ?slug"
    using writeData_ok [OF ok, of opts ?d w1] by auto
  obtain w3 where w3: "writePdf ext opts filePath ?slug w2 = Inr w3"
      "written_paths w3 = written_paths w2 @ pdf_paths ext opts ?slug"
    using writePdf_ok [OF ok] by blast
  obtain w4 where w4: "removeSource ext opts filePath w3 = Inr w4"
      "written_paths w4 = written_paths w3"
    using removeSource_ok [OF ok] by blast
  let ?r = "\<lparr>metadata_issueDate = None, metadata_issueNumber = ?n,
             result_path = filePath, result_slug = ?slug,
             text_date = dateText, text_description = description,
             text_editorial = editorialText, text_issue = issueText\<rparr>"
  have run: "processNewsletter ext filePath opts w = Inr (?r, w4 @ [Cleanup])"
    using w1(1) w2(1) w3(1) w4(1)
    by (simp add: processNewsletter_def bytes doc page1 page3 dateText description issueText
        editorial no_date then_do_Inr newsletterSlug_no_date Let_def perform_ok [OF ok])
  have "written_paths (w4 @ [Cleanup]) = written_paths w @
          image_paths ext opts ?slug @ data_paths ext opts ?slug @ pdf_paths ext opts ?slug"
    by (simp add: written_paths_append w4(2) w3(2) w2(2) w1(2)) (simp add: written_paths_def)
  with run show ?thesis by simp
qed

lemmas sample_text_defs =
  getTextInRect_def sample_newsletter_page_def sample_page_def sample_text_def
  a4_viewport_def keepItem_def or_zero_def at_index_def pdfRectToPixelRect_def
  rectIntersects_def item_str_def

theorem degraded_slug_witness:
  "Bun_file_arrayBuffer sample_externals [] ''in.pdf'' = Inr ''%PDF'' \<and>
   pdfjs_getDocument sample_externals ''%PDF'' = Inr sample_document \<and>
   getPage sample_document 1 = Inr sample_newsletter_page \<and>
   getPage sample_document 3 = Inr sample_newsletter_page \<and>
   getTextInRect sample_newsletter_page dateRect = Inr ''Spring'' \<and>
   getTextInRect sample_newsletter_page issueRect = Inr ''Issue 42'' \<and>
   getTextInRect sample_newsletter_page EDITORIAL_RECT = Inr ''Issue 42'' \<and>
   date_parseMonthYear sample_externals ''Spring'' = None \<and>
   (\<forall>w e. effectError sample_externals w e = None) \<and>
   (\<exists>r w'. processNewsletter sample_externals ''in.pdf'' sample_options [] = Inr (r, w') \<and>
      metadata_issueDate r = None \<and>
      result_slug r = ''newsletter-undefined-undefined-42'' \<and>
      written_paths w' =
        [''img/newsletter-undefined-undefined-42-cover.jpg'',
         ''img/newsletter-undefined-undefined-42-page-5.jpg'',
         ''data/newsletter-undefined-undefined-42.json'',
         ''pdf/newsletter-undefined-undefined-42.pdf''])"
proof -
  have bytes: "Bun_file_arrayBuffer sample_externals [] ''in.pdf'' = Inr ''%PDF''"
    and doc: "pdfjs_getDocument sample_externals ''%PDF'' = Inr sample_document"
    and no_date: "date_parseMonthYear sample_externals ''Spring'' = None"
    and ok: "\<forall>w e. effectError sample_externals w e = None"
    by (simp_all add: sample_externals_def)
  have page1: "getPage sample_document 1 = Inr sample_newsletter_page"
    and page3: "getPage sample_document 3 = Inr sample_newsletter_page"
    by (simp_all add: sample_document_def)
  have dateText: "getTextInRect sample_newsletter_page dateRect = Inr ''Spring''"
    by (simp add: sample_text_defs dateRect_def)
  have issueText: "getTextInRect sample_newsletter_page issueRect = Inr ''Issue 42''"
    by (simp add: sample_text_defs issueRect_def)
  have editorial: "getTextInRect sample_newsletter_page EDITORIAL_RECT = Inr ''Issue 42''"
    by (simp add: sample_text_defs EDITORIAL_RECT_def)
  have image: "renderPageToImage (canvasLib sample_externals) sample_newsletter_page crop
                 = Inr ''jpeg''" for crop
    by (simp add: renderPageToImage_def cropCanvas_def sample_externals_def sample_lib_def
        sample_newsletter_page_def sample_page_def then_do_def Let_def split: option.splits)
  have cover: "truthy (outputImageDir sample_options) \<longrightarrow>
       (\<exists>image. renderPageToImage (canvasLib sample_externals) sample_newsletter_page
          (Some COVER_IMAGE_RECT) = Inr image)"
    by (simp add: image)
  have pages: "truthy (outputImageDir sample_options) \<longrightarrow>
       (\<forall>n \<in> set (case extractPagesToImage sample_options of None \<Rightarrow> [] | Some pages \<Rightarrow> pages).
          \<exists>page image. getPage sample_document n = Inr page \<and>
             renderPageToImage (canvasLib sample_externals) page None = Inr image)"
    by (simp add: image sample_document_def)
  have number: "issueTextToIssueNumber (number_safeParseInt sample_externals) ''Issue 42'' = Some 42"
    by (simp add: sample_externals_def issueTextToIssueNumber_def safeParseInt_def at_index_def
        is_digit_def digits_value_def)
  have slug: "string_slugify sample_externals
                (''newsletter-undefined-undefined-'' @ toString sample_externals (Some 42))
              = ''newsletter-undefined-undefined-42''"
    by (simp add: sample_externals_def show_int_def show_nat.simps)
  have paths: "image_paths sample_externals sample_options ''newsletter-undefined-undefined-42'' @
               data_paths sample_externals sample_options ''newsletter-undefined-undefined-42'' @
               pdf_paths sample_externals sample_options ''newsletter-undefined-undefined-42'' =
        [''img/newsletter-undefined-undefined-42-cover.jpg'',
         ''img/newsletter-undefined-undefined-42-page-5.jpg'',
         ''data/newsletter-undefined-undefined-42.json'',
         ''pdf/newsletter-undefined-undefined-42.pdf'']"
    by (simp add: image_paths_def data_paths_def pdf_paths_def sample_options_def
        sample_externals_def show_int_def show_nat.simps)
  from degraded_slug [OF bytes doc page1 page3 dateText issueText editorial no_date ok cover pages]
  obtain r w' where
    run: "processNewsletter sample_externals ''in.pdf'' sample_options [] = Inr (r, w')"
      "metadata_issueDate r = None"
      "result_slug r = string_slugify sample_externals
         (''newsletter-undefined-undefined-'' @ toString sample_externals
            (issueTextToIssueNumber (number_safeParseInt sample_externals) ''Issue 42''))"
      "written_paths w' = written_paths [] @
         image_paths sample_externals sample_options (result_slug r) @
         data_paths sample_externals sample_options (result_slug r) @
         pdf_paths sample_externals sample_options (result_slug r)"
    by blast
  have r: "result_slug r = ''newsletter-undefined-undefined-42''"
    using run(3) by (simp only: number slug)
  have "written_paths w' =
        [''img/newsletter-undefined-undefined-42-cover.jpg'',
         ''img/newsletter-undefined-undefined-42-page-5.jpg'',
         ''data/newsletter-undefined-undefined-42.json'',
         ''pdf/newsletter-undefined-undefined-42.pdf'']"
    using run(4) by (simp only: r paths written_paths_def list.map concat.simps append_Nil)
  with run(1,2) r bytes doc page1 page3 dateText issueText editorial no_date ok
  show ?thesis by blast
qed

end
